theory Spec2Isabelle
  imports Complex_Main
begin

section \<open>Go values\<close>

text \<open>
  The assertion library is generic Go code: its checks take values of a type parameter
  (\<^verbatim>\<open>T comparable\<close>, \<^verbatim>\<open>T any\<close>), interface values (\<^verbatim>\<open>any\<close>, \<^verbatim>\<open>error\<close>), maps, slices and
  a \<^verbatim>\<open>func()\<close>. The values are modelled by one datatype; what the Go language does with
  them (\<^verbatim>\<open>==\<close>, conversion to \<^verbatim>\<open>any\<close>, \<^verbatim>\<open>len\<close>, map indexing, \<^verbatim>\<open>recover\<close>) is written out below.
\<close>

text \<open>
  A \<^verbatim>\<open>float64\<close> is what it denotes: not a number, an infinity with its sign, or a number
  (the two zeros denote the same number).
\<close>

datatype float64 = NaN | Inf bool | Num real

text \<open>
  Go's \<^verbatim>\<open>==\<close> on floating-point values is the IEEE 754 comparison: a NaN is unequal to
  everything, itself included; any other two values are equal when they denote the same.
\<close>

definition float_eq :: "float64 \<Rightarrow> float64 \<Rightarrow> bool" where
  "float_eq x y = (x \<noteq> NaN \<and> y \<noteq> NaN \<and> x = y)"

text \<open>
  An \<^verbatim>\<open>error\<close> value that is not nil. \<open>ident\<close> is what makes two errors with the same text
  different values (\<^verbatim>\<open>errors.New\<close> returns a fresh pointer each time); \<open>accepts\<close> lists the
  identities of the targets for which the error's own \<^verbatim>\<open>Is\<close> method, if it has one, answers
  true; \<open>wraps\<close> are the causes its \<^verbatim>\<open>Unwrap\<close> method exposes (none, one for
  \<^verbatim>\<open>fmt.Errorf("...%w", e)\<close>, several for \<^verbatim>\<open>errors.Join\<close>).
\<close>

datatype err = Err (ident: nat) (message: string) (accepts: "nat list") (wraps: "err list")

type_synonym error = "err option"

text \<open>A type is known by its name; an address is a number.\<close>

type_synonym ty = string

type_synonym addr = nat

text \<open>
  The values. Pointers, channels and functions are an address or nil. A map is the
  address of its map object or nil; a slice is the address of its array with its length,
  or nil. A struct is its fields (an array is modelled as a struct: both compare element
  by element). \<open>VInterface\<close> is a value of an interface type: nil, or a dynamic type with a
  dynamic value.
\<close>

datatype val =
    VBool bool
  | VInt int
  | VFloat float64
  | VComplex float64 float64
  | VString string
  | VPointer "addr option"
  | VChan "addr option"
  | VFunc "addr option"
  | VStruct "val list"
  | VSlice "(addr \<times> nat) option"
  | VMap "addr option"
  | VInterface "(ty \<times> val) option"

text \<open>
  A value of type \<^verbatim>\<open>any\<close>, as the assertion functions receive it: nil, or a dynamic type
  with a dynamic value.
\<close>

type_synonym any = "(ty \<times> val) option"

type_synonym go_map = "addr option"

type_synonym go_slice = "(addr \<times> nat) option"

text \<open>
  The memory that maps, slices and pointers refer to: at an address a map object with
  its entries, the array of a slice, or the variable a pointer points to.
\<close>

datatype object = MapObject "(val \<times> val) list" | ArrayObject "val list" | Variable val

type_synonym heap = "addr \<Rightarrow> object option"

text \<open>
  Passing a value of static type \<open>ty\<close> where the parameter has type \<^verbatim>\<open>any\<close> converts it. A
  value of a concrete type becomes an interface holding it, which is not nil even when
  the value is a nil pointer, slice or map; a value of an interface type keeps its
  dynamic type and value, so the nil interface stays nil.
\<close>

fun to_any :: "ty \<Rightarrow> val \<Rightarrow> any" where
  "to_any ty (VInterface i) = i"
| "to_any ty v = Some (ty, v)"

text \<open>
  The nil value of the types that have one: pointers, channels, functions, slices, maps
  and interfaces.
\<close>

fun is_nil :: "val \<Rightarrow> bool" where
  "is_nil (VPointer None) = True"
| "is_nil (VChan None) = True"
| "is_nil (VFunc None) = True"
| "is_nil (VSlice None) = True"
| "is_nil (VMap None) = True"
| "is_nil (VInterface None) = True"
| "is_nil v = False"

text \<open>
  The values of the types that satisfy the constraint \<^verbatim>\<open>comparable\<close>: every type but
  functions, slices, maps, and structs or arrays with such a field. Interface types
  satisfy it whatever they hold.
\<close>

fun comparable :: "val \<Rightarrow> bool" and comparable_fields :: "val list \<Rightarrow> bool" where
  "comparable (VFunc f) = False"
| "comparable (VSlice s) = False"
| "comparable (VMap m) = False"
| "comparable (VStruct vs) = comparable_fields vs"
| "comparable v = True"
| "comparable_fields [] = True"
| "comparable_fields (v # vs) = (comparable v \<and> comparable_fields vs)"

text \<open>
  Go's \<^verbatim>\<open>==\<close> on two values of one type; \<open>None\<close> is the run-time panic. Booleans, integers,
  strings, pointers and channels compare by value or address, floats and the two parts of
  a complex number by IEEE 754. Structs compare field by field in order and stop at the
  first field that differs. Two interface values are equal if both are nil, or if their
  dynamic types are identical and their dynamic values equal; when the dynamic types are
  identical and that type is not comparable, the comparison panics. Values of different
  shape (interfaces of different dynamic type) are unequal.
\<close>

fun go_eq :: "val \<Rightarrow> val \<Rightarrow> bool option"
  and go_eq_fields :: "val list \<Rightarrow> val list \<Rightarrow> bool option" where
  "go_eq (VBool a) y = (case y of VBool b \<Rightarrow> Some (a = b) | _ \<Rightarrow> Some False)"
| "go_eq (VInt a) y = (case y of VInt b \<Rightarrow> Some (a = b) | _ \<Rightarrow> Some False)"
| "go_eq (VFloat a) y = (case y of VFloat b \<Rightarrow> Some (float_eq a b) | _ \<Rightarrow> Some False)"
| "go_eq (VComplex a a') y =
     (case y of VComplex b b' \<Rightarrow> Some (float_eq a b \<and> float_eq a' b') | _ \<Rightarrow> Some False)"
| "go_eq (VString a) y = (case y of VString b \<Rightarrow> Some (a = b) | _ \<Rightarrow> Some False)"
| "go_eq (VPointer a) y = (case y of VPointer b \<Rightarrow> Some (a = b) | _ \<Rightarrow> Some False)"
| "go_eq (VChan a) y = (case y of VChan b \<Rightarrow> Some (a = b) | _ \<Rightarrow> Some False)"
| "go_eq (VStruct as) y = (case y of VStruct bs \<Rightarrow> go_eq_fields as bs | _ \<Rightarrow> Some False)"
| "go_eq (VInterface None) y =
     (case y of VInterface None \<Rightarrow> Some True | _ \<Rightarrow> Some False)"
| "go_eq (VInterface (Some (ta, a))) y =
     (case y of
        VInterface (Some (tb, b)) \<Rightarrow>
          if ta \<noteq> tb then Some False else if \<not> comparable a then None else go_eq a b
      | _ \<Rightarrow> Some False)"
| "go_eq (VFunc a) y = (case y of VFunc b \<Rightarrow> None | _ \<Rightarrow> Some False)"
| "go_eq (VSlice a) y = (case y of VSlice b \<Rightarrow> None | _ \<Rightarrow> Some False)"
| "go_eq (VMap a) y = (case y of VMap b \<Rightarrow> None | _ \<Rightarrow> Some False)"
| "go_eq_fields [] ys = Some (ys = [])"
| "go_eq_fields (a # as) ys =
     (case ys of
        [] \<Rightarrow> Some False
      | b # bs \<Rightarrow>
          (case go_eq a b of
             None \<Rightarrow> None
           | Some equal \<Rightarrow> if equal then go_eq_fields as bs else Some False))"



text \<open>
  Whether an interface in a value, at any depth, holds a value of a type that is not
  comparable. Hashing such a value as a map key panics.
\<close>

fun holds_uncomparable :: "val \<Rightarrow> bool" and holds_uncomparable_fields :: "val list \<Rightarrow> bool" where
  "holds_uncomparable (VInterface (Some (t, v))) = (\<not> comparable v \<or> holds_uncomparable v)"
| "holds_uncomparable (VStruct vs) = holds_uncomparable_fields vs"
| "holds_uncomparable v = False"
| "holds_uncomparable_fields [] = False"
| "holds_uncomparable_fields (v # vs) = (holds_uncomparable v \<or> holds_uncomparable_fields vs)"

text \<open>
  \<^verbatim>\<open>len\<close> of a map, read from its map object, and of a slice, read from the slice
  itself: zero for nil.
\<close>

fun len_map :: "heap \<Rightarrow> go_map \<Rightarrow> nat" where
  "len_map mem None = 0"
| "len_map mem (Some a) = (case mem a of Some (MapObject kvs) \<Rightarrow> length kvs | _ \<Rightarrow> 0)"

fun len_slice :: "go_slice \<Rightarrow> nat" where
  "len_slice None = 0"
| "len_slice (Some (a, n)) = n"

text \<open>
  The \<^verbatim>\<open>ok\<close> of \<^verbatim>\<open>_, ok := m[key]\<close>; \<open>None\<close> is the run-time panic. The key is hashed first,
  also for a nil or empty map, which panics for a key that cannot be hashed. Otherwise
  \<^verbatim>\<open>ok\<close> tells whether the map has an entry whose key equals \<open>key\<close>; a nil map has none.
\<close>

fun entries :: "heap \<Rightarrow> go_map \<Rightarrow> (val \<times> val) list" where
  "entries mem None = []"
| "entries mem (Some a) = (case mem a of Some (MapObject kvs) \<Rightarrow> kvs | _ \<Rightarrow> [])"

definition map_index_ok :: "heap \<Rightarrow> go_map \<Rightarrow> val \<Rightarrow> bool option" where
  "map_index_ok mem m key =
     (if holds_uncomparable key then None
      else Some (list_ex (\<lambda>kv. go_eq (fst kv) key = Some True) (entries mem m)))"

text \<open>
  A \<^verbatim>\<open>func()\<close> is modelled by how its invocation ends: it returns, it panics with a value,
  or it ends the goroutine with \<^verbatim>\<open>runtime.Goexit\<close> (which is what \<^verbatim>\<open>FailNow\<close> and \<^verbatim>\<open>Fatal\<close> of
  a \<^verbatim>\<open>testing.T\<close> do). Since Go 1.21 \<^verbatim>\<open>panic(nil)\<close> panics with a
  \<^verbatim>\<open>*runtime.PanicNilError\<close>, so the value of a panic is never the nil interface: it is a
  dynamic type with a dynamic value.
\<close>

datatype func = Returns | PanicsWith "ty \<times> val" | CallsGoexit

text \<open>
  \<^verbatim>\<open>recover()\<close>, called by a deferred function while \<open>f\<close> unwinds: the value of the panic,
  and nil when there is no panic (also during \<^verbatim>\<open>Goexit\<close>, which is not a panic).
\<close>

fun recover :: "func \<Rightarrow> any" where
  "recover (PanicsWith v) = Some v"
| "recover Returns = None"
| "recover CallsGoexit = None"

text \<open>
  How a call ends: it returns its results to the caller, a run-time panic leaves it, or
  the goroutine ends and it never returns.
\<close>

datatype 'a return = Return 'a | Panic | NoReturn

text \<open>
  The end of a function with a deferred \<^verbatim>\<open>recover()\<close> around \<open>f()\<close>: a panic of \<open>f\<close> stops at
  the \<^verbatim>\<open>recover()\<close> and the function returns; when \<open>f\<close> ends the goroutine it does not.
\<close>

fun returns_after :: "func \<Rightarrow> 'a \<Rightarrow> 'a return" where
  "returns_after CallsGoexit r = NoReturn"
| "returns_after f r = Return r"

section \<open>Library functions the assertions call\<close>

text \<open>
  Modelled from the spec: \<^verbatim>\<open>strings.Contains\<close> of the Go standard library, which is not
  part of the repository: the substring is present in the given string.
\<close>

fun strings_Contains :: "string \<Rightarrow> string \<Rightarrow> bool" where
  "strings_Contains [] substr = (substr = [])"
| "strings_Contains (c # s) substr =
     (take (length substr) (c # s) = substr \<or> strings_Contains s substr)"

text \<open>
  Modelled from the spec: \<^verbatim>\<open>errors.Is\<close> of the Go standard library, which is not part of
  the repository. An error matches a target if it is the target, or its \<^verbatim>\<open>Is\<close> method
  answers true for the target, or one of the causes it unwraps to matches; the chain is
  walked depth first. When either argument is nil the answer is whether both are.
\<close>

fun is_chain :: "err \<Rightarrow> err \<Rightarrow> bool" and is_causes :: "err list \<Rightarrow> err \<Rightarrow> bool" where
  "is_chain (Err i m acc ws) target =
     (Err i m acc ws = target \<or> ident target \<in> set acc \<or> is_causes ws target)"
| "is_causes [] target = False"
| "is_causes (e # es) target = (is_chain e target \<or> is_causes es target)"

fun errors_Is :: "error \<Rightarrow> error \<Rightarrow> bool" where
  "errors_Is (Some e) (Some target) = is_chain e target"
| "errors_Is err target = (err = target)"

text \<open>
  The spec's own words for the match, as a relation: an error matches a target when it is
  the target, or exposes an is-equivalent-to predicate that is true for the target, or
  exposes an unwrap-to-cause relation that reaches a match.
\<close>

inductive matches :: "error \<Rightarrow> error \<Rightarrow> bool" where
  is_target: "matches e e"
| is_equivalent: "ident target \<in> set (accepts e) \<Longrightarrow> matches (Some e) (Some target)"
| unwraps_to: "cause \<in> set (wraps e) \<Longrightarrow> matches (Some cause) target \<Longrightarrow> matches (Some e) target"

section \<open>The reporting context and the spy\<close>

text \<open>
  An argument of a parameter \<^verbatim>\<open>args ...any\<close>: the value passed, or the error passed.
\<close>

datatype arg = Value val | ErrorValue error

text \<open>
  The methods of \<^verbatim>\<open>testing.TB\<close> that the repository calls or intercepts; \<open>Promoted\<close> stands
  for any other method of the interface, by name.
\<close>

datatype call =
    Helper
  | Fail
  | FailNow
  | Error "arg list"
  | Errorf string "arg list"
  | Fatal "arg list"
  | Fatalf string "arg list"
  | Log "arg list"
  | Logf string "arg list"
  | Promoted string

text \<open>
  A \<^verbatim>\<open>testing.TB\<close> is either a context of the host test framework, known by the calls it
  has received, in order, or a \<^verbatim>\<open>*TBSpy\<close>: the struct with the embedded field \<^verbatim>\<open>TB\<close> and the
  flag \<^verbatim>\<open>failed\<close>.
\<close>

datatype tb = T (calls: "call list") | Spied tbspy
and tbspy = TBSpy (TB: tb) (failed: bool)

text \<open>The calls of the interface by which a test is reported as failed.\<close>

fun is_failure_report :: "call \<Rightarrow> bool" where
  "is_failure_report Fail = True"
| "is_failure_report FailNow = True"
| "is_failure_report (Error args) = True"
| "is_failure_report (Errorf format args) = True"
| "is_failure_report (Fatal args) = True"
| "is_failure_report (Fatalf format args) = True"
| "is_failure_report c = False"


text \<open>How many failures a context of the host framework has been told of.\<close>

definition failures :: "tb \<Rightarrow> nat" where
  "failures t = length (filter is_failure_report (calls t))"

text \<open>
  A method call on a \<^verbatim>\<open>testing.TB\<close>. The host context records it. On a spy, the six
  methods that \<^verbatim>\<open>TBSpy\<close> defines run their bodies; every other method is the embedded
  field's, promoted.
\<close>

function (sequential) invoke :: "tb \<Rightarrow> call \<Rightarrow> tb"
  and TBSpy_method :: "tbspy \<Rightarrow> call \<Rightarrow> tbspy" where
  "invoke (T cs) c = T (cs @ [c])"
| "invoke (Spied s) c = Spied (TBSpy_method s c)"
| "TBSpy_method (TBSpy w f) Fail = TBSpy (invoke w Helper) True"
| "TBSpy_method (TBSpy w f) FailNow = TBSpy (invoke w Helper) True"
| "TBSpy_method (TBSpy w f) (Error args) = TBSpy (invoke (invoke w Helper) (Log args)) True"
| "TBSpy_method (TBSpy w f) (Errorf format args) =
     TBSpy (invoke (invoke w Helper) (Logf format args)) True"
| "TBSpy_method (TBSpy w f) (Fatalf format args) =
     TBSpy (invoke (invoke w Helper) (Logf format args)) True"
| "TBSpy_method (TBSpy w f) (Fatal args) = TBSpy (invoke (invoke w Helper) (Log args)) True"
| "TBSpy_method (TBSpy w f) c = TBSpy (invoke w c) f"
  by pat_completeness auto
termination
proof -
  have keeps_size:
    "invoke_TBSpy_method_dom (Inl (t, c)) \<Longrightarrow> size (invoke t c) = size t"
    "invoke_TBSpy_method_dom (Inr (s, c')) \<Longrightarrow> size (TBSpy_method s c') = size s"
    for t c s c'
    by (induction t c and s c' rule: invoke_TBSpy_method.pinduct)
       (simp_all add: invoke.psimps TBSpy_method.psimps)
  show ?thesis
    by (relation "measure (\<lambda>x. case x of Inl (t, c) \<Rightarrow> size t | Inr (s, c) \<Rightarrow> size s)")
       (auto simp: keeps_size)
qed

section \<open>The assertion library\<close>

text \<open>
  Each function takes the memory and the reporting context, and yields what it leaves:
  the reporting context as its calls have left it, the memory as its statements have
  left it, and how the call ends. \<^verbatim>\<open>args ...any\<close> is the list of the arguments.
\<close>

record 'a result =
  reporting :: tb
  memory :: heap
  ending :: "'a return"

definition leaves :: "heap \<Rightarrow> tb \<Rightarrow> 'a return \<Rightarrow> 'a result" where
  "leaves mem t e = \<lparr>reporting = t, memory = mem, ending = e\<rparr>"

definition Equalf :: "heap \<Rightarrow> tb \<Rightarrow> val \<Rightarrow> val \<Rightarrow> string \<Rightarrow> arg list \<Rightarrow> unit result" where
  "Equalf mem t expected actual format args =
     (let t = invoke t Helper
      in case go_eq expected actual of
           None \<Rightarrow> leaves mem t Panic
         | Some equal \<Rightarrow>
             leaves mem (if \<not> equal then invoke t (Errorf format args) else t) (Return ()))"

definition Equal :: "heap \<Rightarrow> tb \<Rightarrow> val \<Rightarrow> val \<Rightarrow> unit result" where
  "Equal mem t expected actual =
     (let t = invoke t Helper
      in Equalf mem t expected actual ''expected %v to equal %v''
           [Value actual, Value expected])"

definition NotEqualf :: "heap \<Rightarrow> tb \<Rightarrow> val \<Rightarrow> val \<Rightarrow> string \<Rightarrow> arg list \<Rightarrow> unit result" where
  "NotEqualf mem t expected actual format args =
     (let t = invoke t Helper
      in case go_eq expected actual of
           None \<Rightarrow> leaves mem t Panic
         | Some equal \<Rightarrow>
             leaves mem (if equal then invoke t (Errorf format args) else t) (Return ()))"

definition NotEqual :: "heap \<Rightarrow> tb \<Rightarrow> val \<Rightarrow> val \<Rightarrow> unit result" where
  "NotEqual mem t expected actual =
     (let t = invoke t Helper
      in NotEqualf mem t expected actual ''expected %v to not equal %v''
           [Value actual, Value expected])"

definition Truef :: "heap \<Rightarrow> tb \<Rightarrow> bool \<Rightarrow> string \<Rightarrow> arg list \<Rightarrow> unit result" where
  "Truef mem t actual format args =
     (let t = invoke t Helper in Equalf mem t (VBool True) (VBool actual) format args)"

definition True_assert :: "heap \<Rightarrow> tb \<Rightarrow> bool \<Rightarrow> unit result" where
  "True_assert mem t actual =
     (let t = invoke t Helper
      in Truef mem t actual ''expected %v to be true''
           [Value (VBool actual)])"

definition Falsef :: "heap \<Rightarrow> tb \<Rightarrow> bool \<Rightarrow> string \<Rightarrow> arg list \<Rightarrow> unit result" where
  "Falsef mem t actual format args =
     (let t = invoke t Helper in Equalf mem t (VBool False) (VBool actual) format args)"

definition False_assert :: "heap \<Rightarrow> tb \<Rightarrow> bool \<Rightarrow> unit result" where
  "False_assert mem t actual =
     (let t = invoke t Helper
      in Falsef mem t actual ''expected %v to be false''
           [Value (VBool actual)])"

definition Nilf :: "heap \<Rightarrow> tb \<Rightarrow> any \<Rightarrow> string \<Rightarrow> arg list \<Rightarrow> unit result" where
  "Nilf mem t actual format args =
     (let t = invoke t Helper
      in leaves mem (if actual \<noteq> None then invoke t (Errorf format args) else t) (Return ()))"

definition Nil_assert :: "heap \<Rightarrow> tb \<Rightarrow> any \<Rightarrow> unit result" where
  "Nil_assert mem t actual =
     (let t = invoke t Helper
      in Nilf mem t actual ''expected %v to be nil''
           [Value (VInterface actual)])"

definition NotNilf :: "heap \<Rightarrow> tb \<Rightarrow> any \<Rightarrow> string \<Rightarrow> arg list \<Rightarrow> unit result" where
  "NotNilf mem t actual format args =
     (let t = invoke t Helper
      in leaves mem (if actual = None then invoke t (Errorf format args) else t) (Return ()))"

definition NotNil :: "heap \<Rightarrow> tb \<Rightarrow> any \<Rightarrow> unit result" where
  "NotNil mem t actual =
     (let t = invoke t Helper
      in NotNilf mem t actual ''expected %v to not be nil''
           [Value (VInterface actual)])"

definition StringContainsf :: "heap \<Rightarrow> tb \<Rightarrow> string \<Rightarrow> string \<Rightarrow> string \<Rightarrow> arg list \<Rightarrow> unit result" where
  "StringContainsf mem t str substr format args =
     (let t = invoke t Helper
      in leaves mem (if \<not> strings_Contains str substr then invoke t (Errorf format args) else t) (Return ()))"

definition StringContains :: "heap \<Rightarrow> tb \<Rightarrow> string \<Rightarrow> string \<Rightarrow> unit result" where
  "StringContains mem t str substr =
     (let t = invoke t Helper
      in StringContainsf mem t str substr ''expected %v to contain the substring %v''
           [Value (VString str), Value (VString substr)])"

definition StringDoesNotContainf :: "heap \<Rightarrow> tb \<Rightarrow> string \<Rightarrow> string \<Rightarrow> string \<Rightarrow> arg list \<Rightarrow> unit result" where
  "StringDoesNotContainf mem t str substr format args =
     (let t = invoke t Helper
      in leaves mem (if strings_Contains str substr then invoke t (Errorf format args) else t) (Return ()))"

definition StringDoesNotContain :: "heap \<Rightarrow> tb \<Rightarrow> string \<Rightarrow> string \<Rightarrow> unit result" where
  "StringDoesNotContain mem t str substr =
     (let t = invoke t Helper
      in StringDoesNotContainf mem t str substr ''expected %v to not contain the substring %v''
           [Value (VString str), Value (VString substr)])"

text \<open>
  \<^verbatim>\<open>Panicsf\<close> has the named result \<^verbatim>\<open>recovery\<close>. Its deferred function runs when \<open>f\<close> has
  returned, panicked or called \<^verbatim>\<open>Goexit\<close>; it assigns \<^verbatim>\<open>recover()\<close> to the result and reports
  when that is nil. A recovered panic stops there and the function returns \<^verbatim>\<open>recovery\<close>.
\<close>

definition Panicsf :: "heap \<Rightarrow> tb \<Rightarrow> func \<Rightarrow> string \<Rightarrow> arg list \<Rightarrow> any result" where
  "Panicsf mem t f format args =
     (let t = invoke t Helper;
          recovery = recover f;
          t = (if recovery = None then invoke t (Errorf format args) else t)
      in leaves mem t (returns_after f recovery))"

definition Panics :: "heap \<Rightarrow> tb \<Rightarrow> func \<Rightarrow> any result" where
  "Panics mem t f =
     (let t = invoke t Helper
      in Panicsf mem t f ''expected function to panic, did not panic'' [])"

definition DoesNotPanicf :: "heap \<Rightarrow> tb \<Rightarrow> func \<Rightarrow> string \<Rightarrow> arg list \<Rightarrow> unit result" where
  "DoesNotPanicf mem t f format args =
     (let t = invoke t Helper;
          r = recover f;
          t = (if r \<noteq> None then invoke t (Errorf format args) else t)
      in leaves mem t (returns_after f ()))"

definition DoesNotPanic :: "heap \<Rightarrow> tb \<Rightarrow> func \<Rightarrow> unit result" where
  "DoesNotPanic mem t f =
     (let t = invoke t Helper
      in DoesNotPanicf mem t f ''expected function to not panic, did panic'' [])"

definition ErrorIsf :: "heap \<Rightarrow> tb \<Rightarrow> error \<Rightarrow> error \<Rightarrow> string \<Rightarrow> arg list \<Rightarrow> unit result" where
  "ErrorIsf mem t err target format args =
     (let t = invoke t Helper
      in leaves mem (if \<not> errors_Is err target then invoke t (Errorf format args) else t) (Return ()))"

definition ErrorIs :: "heap \<Rightarrow> tb \<Rightarrow> error \<Rightarrow> error \<Rightarrow> unit result" where
  "ErrorIs mem t err target =
     (let t = invoke t Helper
      in ErrorIsf mem t err target ''expected error %v to be %v''
           [ErrorValue err, ErrorValue target])"

definition ErrorIsNotf :: "heap \<Rightarrow> tb \<Rightarrow> error \<Rightarrow> error \<Rightarrow> string \<Rightarrow> arg list \<Rightarrow> unit result" where
  "ErrorIsNotf mem t err target format args =
     (let t = invoke t Helper
      in leaves mem (if errors_Is err target then invoke t (Errorf format args) else t) (Return ()))"

definition ErrorIsNot :: "heap \<Rightarrow> tb \<Rightarrow> error \<Rightarrow> error \<Rightarrow> unit result" where
  "ErrorIsNot mem t err target =
     (let t = invoke t Helper
      in ErrorIsNotf mem t err target ''expected error %v to not be %v''
           [ErrorValue err, ErrorValue target])"

definition MapContainsKeyf :: "heap \<Rightarrow> tb \<Rightarrow> go_map \<Rightarrow> val \<Rightarrow> string \<Rightarrow> arg list \<Rightarrow> unit result" where
  "MapContainsKeyf mem t m key format args =
     (let t = invoke t Helper
      in case map_index_ok mem m key of
           None \<Rightarrow> leaves mem t Panic
         | Some ok \<Rightarrow>
             leaves mem (if \<not> ok then invoke t (Errorf format args) else t) (Return ()))"

definition MapContainsKey :: "heap \<Rightarrow> tb \<Rightarrow> go_map \<Rightarrow> val \<Rightarrow> unit result" where
  "MapContainsKey mem t m key =
     (let t = invoke t Helper
      in MapContainsKeyf mem t m key ''expected map to contain key %v''
           [Value key])"

definition MapDoesNotContainKeyf :: "heap \<Rightarrow> tb \<Rightarrow> go_map \<Rightarrow> val \<Rightarrow> string \<Rightarrow> arg list \<Rightarrow> unit result" where
  "MapDoesNotContainKeyf mem t m key format args =
     (let t = invoke t Helper
      in case map_index_ok mem m key of
           None \<Rightarrow> leaves mem t Panic
         | Some ok \<Rightarrow>
             leaves mem (if ok then invoke t (Errorf format args) else t) (Return ()))"

definition MapDoesNotContainKey :: "heap \<Rightarrow> tb \<Rightarrow> go_map \<Rightarrow> val \<Rightarrow> unit result" where
  "MapDoesNotContainKey mem t m key =
     (let t = invoke t Helper
      in MapDoesNotContainKeyf mem t m key ''expected map to not contain key %v''
           [Value key])"

definition EmptyMapf :: "heap \<Rightarrow> tb \<Rightarrow> go_map \<Rightarrow> string \<Rightarrow> arg list \<Rightarrow> unit result" where
  "EmptyMapf mem t m format args =
     (let t = invoke t Helper
      in leaves mem (if len_map mem m \<noteq> 0 then invoke t (Errorf format args) else t) (Return ()))"

definition EmptyMap :: "heap \<Rightarrow> tb \<Rightarrow> go_map \<Rightarrow> unit result" where
  "EmptyMap mem t m =
     (let t = invoke t Helper
      in EmptyMapf mem t m ''expected map %v to be empty''
           [Value (VMap m)])"

definition NotEmptyMapf :: "heap \<Rightarrow> tb \<Rightarrow> go_map \<Rightarrow> string \<Rightarrow> arg list \<Rightarrow> unit result" where
  "NotEmptyMapf mem t m format args =
     (let t = invoke t Helper
      in leaves mem (if len_map mem m = 0 then invoke t (Errorf format args) else t) (Return ()))"

definition NotEmptyMap :: "heap \<Rightarrow> tb \<Rightarrow> go_map \<Rightarrow> unit result" where
  "NotEmptyMap mem t m =
     (let t = invoke t Helper
      in NotEmptyMapf mem t m ''expected map %v to not be empty''
           [Value (VMap m)])"

definition EmptySlicef :: "heap \<Rightarrow> tb \<Rightarrow> go_slice \<Rightarrow> string \<Rightarrow> arg list \<Rightarrow> unit result" where
  "EmptySlicef mem t slice' format args =
     (let t = invoke t Helper
      in leaves mem (if len_slice slice' \<noteq> 0 then invoke t (Errorf format args) else t) (Return ()))"

definition EmptySlice :: "heap \<Rightarrow> tb \<Rightarrow> go_slice \<Rightarrow> unit result" where
  "EmptySlice mem t slice' =
     (let t = invoke t Helper
      in EmptySlicef mem t slice' ''expected slice %v to be empty''
           [Value (VSlice slice')])"

definition NotEmptySlicef :: "heap \<Rightarrow> tb \<Rightarrow> go_slice \<Rightarrow> string \<Rightarrow> arg list \<Rightarrow> unit result" where
  "NotEmptySlicef mem t slice' format args =
     (let t = invoke t Helper
      in leaves mem (if len_slice slice' = 0 then invoke t (Errorf format args) else t) (Return ()))"

definition NotEmptySlice :: "heap \<Rightarrow> tb \<Rightarrow> go_slice \<Rightarrow> unit result" where
  "NotEmptySlice mem t slice' =
     (let t = invoke t Helper
      in NotEmptySlicef mem t slice' ''expected slice %v to not be empty''
           [Value (VSlice slice')])"

text \<open>
  \<^verbatim>\<open>reflect.DeepEqual\<close> belongs to the Go standard library; the functions that call it take
  its answer, which it reads from the values and the memory, as the parameter \<open>deep\<close>.
\<close>

definition DeepEqualf :: "(heap \<Rightarrow> val \<Rightarrow> val \<Rightarrow> bool) \<Rightarrow> heap \<Rightarrow> tb \<Rightarrow> val \<Rightarrow> val \<Rightarrow> string \<Rightarrow> arg list \<Rightarrow> unit result" where
  "DeepEqualf deep mem t expected actual format args =
     (let t = invoke t Helper
      in leaves mem (if \<not> deep mem expected actual then invoke t (Errorf format args) else t) (Return ()))"

definition DeepEqual :: "(heap \<Rightarrow> val \<Rightarrow> val \<Rightarrow> bool) \<Rightarrow> heap \<Rightarrow> tb \<Rightarrow> val \<Rightarrow> val \<Rightarrow> unit result" where
  "DeepEqual deep mem t expected actual =
     (let t = invoke t Helper
      in DeepEqualf deep mem t expected actual ''expected %v to reflect.DeepEqual %v''
           [Value actual, Value expected])"

definition NotDeepEqualf :: "(heap \<Rightarrow> val \<Rightarrow> val \<Rightarrow> bool) \<Rightarrow> heap \<Rightarrow> tb \<Rightarrow> val \<Rightarrow> val \<Rightarrow> string \<Rightarrow> arg list \<Rightarrow> unit result" where
  "NotDeepEqualf deep mem t expected actual format args =
     (let t = invoke t Helper
      in leaves mem (if deep mem expected actual then invoke t (Errorf format args) else t) (Return ()))"

definition NotDeepEqual :: "(heap \<Rightarrow> val \<Rightarrow> val \<Rightarrow> bool) \<Rightarrow> heap \<Rightarrow> tb \<Rightarrow> val \<Rightarrow> val \<Rightarrow> unit result" where
  "NotDeepEqual deep mem t expected actual =
     (let t = invoke t Helper
      in NotDeepEqualf deep mem t expected actual ''expected %v to not reflect.DeepEqual %v''
           [Value actual, Value expected])"

section \<open>The spy's own methods\<close>

definition SpyOn :: "tb \<Rightarrow> tbspy" where
  "SpyOn t = TBSpy t False"

definition SpiedOnAFailure :: "tbspy \<Rightarrow> bool" where
  "SpiedOnAFailure s = failed s"

text \<open>
  \<^verbatim>\<open>ExpectFailure\<close> and \<^verbatim>\<open>ExpectSuccess\<close> yield the spy as they leave it, and what the
  assertion they end with has left.
\<close>

definition ExpectFailure :: "heap \<Rightarrow> tbspy \<Rightarrow> tbspy \<times> unit result" where
  "ExpectFailure mem s =
     (let w = invoke (TB s) Helper;
          r = Truef mem w (failed s) ''[spy] Expected test failure but got success'' []
      in (TBSpy (reporting r) (failed s), r))"

definition ExpectSuccess :: "heap \<Rightarrow> tbspy \<Rightarrow> tbspy \<times> unit result" where
  "ExpectSuccess mem s =
     (let w = invoke (TB s) Helper;
          r = Falsef mem w (failed s) ''[spy] Expected test success but got failure'' []
      in (TBSpy (reporting r) (failed s), r))"

text \<open>
  Everything that can be done to a spy: a method of \<^verbatim>\<open>testing.TB\<close> called on it, or one of
  its three own methods. A step takes the spy and the memory to the next.
\<close>

datatype spy_op = Method call | Op_SpiedOnAFailure | Op_ExpectFailure | Op_ExpectSuccess

fun spy_step :: "tbspy \<times> heap \<Rightarrow> spy_op \<Rightarrow> tbspy \<times> heap" where
  "spy_step (s, mem) (Method c) = (TBSpy_method s c, mem)"
| "spy_step (s, mem) Op_SpiedOnAFailure = (s, mem)"
| "spy_step (s, mem) Op_ExpectFailure =
     (case ExpectFailure mem s of (s', r) \<Rightarrow> (s', memory r))"
| "spy_step (s, mem) Op_ExpectSuccess =
     (case ExpectSuccess mem s of (s', r) \<Rightarrow> (s', memory r))"

section \<open>The checks as one family\<close>

text \<open>
  The twenty checks of the library with the values they check; for \<^verbatim>\<open>Nil\<close> and \<^verbatim>\<open>NotNil\<close>
  the value is the argument of the call with its static type, which the call converts
  to \<^verbatim>\<open>any\<close>. Each check exists in two forms, run by \<open>run_formatted\<close> (the caller's
  message) and \<open>run_default\<close> (the built-in message). A run yields what the function
  leaves, with the list of the Go function's results where it returns.
\<close>

datatype check =
    C_Equal val val
  | C_NotEqual val val
  | C_True bool
  | C_False bool
  | C_Nil ty val
  | C_NotNil ty val
  | C_StringContains string string
  | C_StringDoesNotContain string string
  | C_Panics func
  | C_DoesNotPanic func
  | C_ErrorIs error error
  | C_ErrorIsNot error error
  | C_MapContainsKey go_map val
  | C_MapDoesNotContainKey go_map val
  | C_EmptyMap go_map
  | C_NotEmptyMap go_map
  | C_EmptySlice go_slice
  | C_NotEmptySlice go_slice
  | C_DeepEqual val val
  | C_NotDeepEqual val val

definition with_results :: "('a \<Rightarrow> any list) \<Rightarrow> 'a result \<Rightarrow> any list result" where
  "with_results f r =
     \<lparr>reporting = reporting r, memory = memory r, ending = map_return f (ending r)\<rparr>"

fun run_formatted ::
  "(heap \<Rightarrow> val \<Rightarrow> val \<Rightarrow> bool) \<Rightarrow> heap \<Rightarrow> check \<Rightarrow> tb \<Rightarrow> string \<Rightarrow> arg list
     \<Rightarrow> any list result" where
  "run_formatted deep mem (C_Equal e a) t format args =
     with_results (\<lambda>u. []) (Equalf mem t e a format args)"
| "run_formatted deep mem (C_NotEqual e a) t format args =
     with_results (\<lambda>u. []) (NotEqualf mem t e a format args)"
| "run_formatted deep mem (C_True a) t format args =
     with_results (\<lambda>u. []) (Truef mem t a format args)"
| "run_formatted deep mem (C_False a) t format args =
     with_results (\<lambda>u. []) (Falsef mem t a format args)"
| "run_formatted deep mem (C_Nil ty v) t format args =
     with_results (\<lambda>u. []) (Nilf mem t (to_any ty v) format args)"
| "run_formatted deep mem (C_NotNil ty v) t format args =
     with_results (\<lambda>u. []) (NotNilf mem t (to_any ty v) format args)"
| "run_formatted deep mem (C_StringContains str substr) t format args =
     with_results (\<lambda>u. []) (StringContainsf mem t str substr format args)"
| "run_formatted deep mem (C_StringDoesNotContain str substr) t format args =
     with_results (\<lambda>u. []) (StringDoesNotContainf mem t str substr format args)"
| "run_formatted deep mem (C_Panics f) t format args =
     with_results (\<lambda>recovery. [recovery]) (Panicsf mem t f format args)"
| "run_formatted deep mem (C_DoesNotPanic f) t format args =
     with_results (\<lambda>u. []) (DoesNotPanicf mem t f format args)"
| "run_formatted deep mem (C_ErrorIs err target) t format args =
     with_results (\<lambda>u. []) (ErrorIsf mem t err target format args)"
| "run_formatted deep mem (C_ErrorIsNot err target) t format args =
     with_results (\<lambda>u. []) (ErrorIsNotf mem t err target format args)"
| "run_formatted deep mem (C_MapContainsKey m key) t format args =
     with_results (\<lambda>u. []) (MapContainsKeyf mem t m key format args)"
| "run_formatted deep mem (C_MapDoesNotContainKey m key) t format args =
     with_results (\<lambda>u. []) (MapDoesNotContainKeyf mem t m key format args)"
| "run_formatted deep mem (C_EmptyMap m) t format args =
     with_results (\<lambda>u. []) (EmptyMapf mem t m format args)"
| "run_formatted deep mem (C_NotEmptyMap m) t format args =
     with_results (\<lambda>u. []) (NotEmptyMapf mem t m format args)"
| "run_formatted deep mem (C_EmptySlice s) t format args =
     with_results (\<lambda>u. []) (EmptySlicef mem t s format args)"
| "run_formatted deep mem (C_NotEmptySlice s) t format args =
     with_results (\<lambda>u. []) (NotEmptySlicef mem t s format args)"
| "run_formatted deep mem (C_DeepEqual e a) t format args =
     with_results (\<lambda>u. []) (DeepEqualf deep mem t e a format args)"
| "run_formatted deep mem (C_NotDeepEqual e a) t format args =
     with_results (\<lambda>u. []) (NotDeepEqualf deep mem t e a format args)"

fun run_default ::
  "(heap \<Rightarrow> val \<Rightarrow> val \<Rightarrow> bool) \<Rightarrow> heap \<Rightarrow> check \<Rightarrow> tb \<Rightarrow> any list result" where
  "run_default deep mem (C_Equal e a) t =
     with_results (\<lambda>u. []) (Equal mem t e a)"
| "run_default deep mem (C_NotEqual e a) t =
     with_results (\<lambda>u. []) (NotEqual mem t e a)"
| "run_default deep mem (C_True a) t =
     with_results (\<lambda>u. []) (True_assert mem t a)"
| "run_default deep mem (C_False a) t =
     with_results (\<lambda>u. []) (False_assert mem t a)"
| "run_default deep mem (C_Nil ty v) t =
     with_results (\<lambda>u. []) (Nil_assert mem t (to_any ty v))"
| "run_default deep mem (C_NotNil ty v) t =
     with_results (\<lambda>u. []) (NotNil mem t (to_any ty v))"
| "run_default deep mem (C_StringContains str substr) t =
     with_results (\<lambda>u. []) (StringContains mem t str substr)"
| "run_default deep mem (C_StringDoesNotContain str substr) t =
     with_results (\<lambda>u. []) (StringDoesNotContain mem t str substr)"
| "run_default deep mem (C_Panics f) t =
     with_results (\<lambda>recovery. [recovery]) (Panics mem t f)"
| "run_default deep mem (C_DoesNotPanic f) t =
     with_results (\<lambda>u. []) (DoesNotPanic mem t f)"
| "run_default deep mem (C_ErrorIs err target) t =
     with_results (\<lambda>u. []) (ErrorIs mem t err target)"
| "run_default deep mem (C_ErrorIsNot err target) t =
     with_results (\<lambda>u. []) (ErrorIsNot mem t err target)"
| "run_default deep mem (C_MapContainsKey m key) t =
     with_results (\<lambda>u. []) (MapContainsKey mem t m key)"
| "run_default deep mem (C_MapDoesNotContainKey m key) t =
     with_results (\<lambda>u. []) (MapDoesNotContainKey mem t m key)"
| "run_default deep mem (C_EmptyMap m) t =
     with_results (\<lambda>u. []) (EmptyMap mem t m)"
| "run_default deep mem (C_NotEmptyMap m) t =
     with_results (\<lambda>u. []) (NotEmptyMap mem t m)"
| "run_default deep mem (C_EmptySlice s) t =
     with_results (\<lambda>u. []) (EmptySlice mem t s)"
| "run_default deep mem (C_NotEmptySlice s) t =
     with_results (\<lambda>u. []) (NotEmptySlice mem t s)"
| "run_default deep mem (C_DeepEqual e a) t =
     with_results (\<lambda>u. []) (DeepEqual deep mem t e a)"
| "run_default deep mem (C_NotDeepEqual e a) t =
     with_results (\<lambda>u. []) (NotDeepEqual deep mem t e a)"





text \<open>
  Whether a context counts as failed: the host context when it has received one of the
  failure reports, a spy when its flag is set.
\<close>

fun marked_failed :: "tb \<Rightarrow> bool" where
  "marked_failed (T cs) = list_ex is_failure_report cs"
| "marked_failed (Spied s) = failed s"

section \<open>Calls in sequence\<close>

lemma calls_foldl_invoke: "foldl invoke (T cs) xs = T (cs @ xs)"
  by (induction xs arbitrary: cs) simp_all

lemma failures_T: "failures (T cs) = length (filter is_failure_report cs)"
  by (simp add: failures_def)

lemma reporting_leaves: "reporting (leaves mem t e) = t"
  by (simp add: leaves_def)


lemma ending_leaves: "ending (leaves mem t e) = e"
  by (simp add: leaves_def)

section \<open>Nil maps and nil slices\<close>

text \<open>
  C10. For the nil map \<^verbatim>\<open>EmptyMap\<close> reports nothing and \<^verbatim>\<open>NotEmptyMap\<close> reports one failure;
  for the nil slice \<^verbatim>\<open>EmptySlice\<close> reports nothing and \<^verbatim>\<open>NotEmptySlice\<close> reports one failure.
  Each of the four gives the nil collection the verdict it gives a constructed empty one
  (a map whose map object has no entries, a slice of length 0), because two collections
  of the same length leave everything in the same state.
\<close>

theorem nil_collections_count_as_empty:
  "failures (reporting (EmptyMap mem (T cs) None)) = failures (T cs)
   \<and> failures (reporting (NotEmptyMap mem (T cs) None)) = Suc (failures (T cs))
   \<and> failures (reporting (EmptySlice mem (T cs) None)) = failures (T cs)
   \<and> failures (reporting (NotEmptySlice mem (T cs) None)) = Suc (failures (T cs))
   \<and> (mem a = Some (MapObject []) \<longrightarrow>
        failures (reporting (EmptyMap mem (T cs) None))
          = failures (reporting (EmptyMap mem (T cs) (Some a)))
        \<and> failures (reporting (NotEmptyMap mem (T cs) None))
          = failures (reporting (NotEmptyMap mem (T cs) (Some a))))
   \<and> failures (reporting (EmptySlice mem (T cs) None))
       = failures (reporting (EmptySlice mem (T cs) (Some (a, 0))))
   \<and> failures (reporting (NotEmptySlice mem (T cs) None))
       = failures (reporting (NotEmptySlice mem (T cs) (Some (a, 0))))
   \<and> (len_map mem m = len_map mem m' \<longrightarrow>
        EmptyMapf mem t m format args = EmptyMapf mem t m' format args
        \<and> NotEmptyMapf mem t m format args = NotEmptyMapf mem t m' format args)
   \<and> (len_slice s = len_slice s' \<longrightarrow>
        EmptySlicef mem t s format args = EmptySlicef mem t s' format args
        \<and> NotEmptySlicef mem t s format args = NotEmptySlicef mem t s' format args)"
  by (simp add: EmptyMap_def EmptyMapf_def NotEmptyMap_def NotEmptyMapf_def
        EmptySlice_def EmptySlicef_def NotEmptySlice_def NotEmptySlicef_def failures_def
        reporting_leaves)

theorem nil_collections_count_as_empty_witness:
  "[1 \<mapsto> MapObject []] 1 = Some (MapObject [])
   \<and> len_map [1 \<mapsto> MapObject []] None = len_map [1 \<mapsto> MapObject []] (Some 1)
   \<and> EmptyMapf [1 \<mapsto> MapObject []] (T []) None ''m'' []
       = EmptyMapf [1 \<mapsto> MapObject []] (T []) (Some 1) ''m'' []
   \<and> reporting (NotEmptyMapf [1 \<mapsto> MapObject []] (T []) None ''m'' [])
       = T [Helper, Errorf ''m'' []]
   \<and> failures (reporting (NotEmptyMap [1 \<mapsto> MapObject []] (T []) (Some 1))) = 1
   \<and> len_slice None = len_slice (Some (2, 0))
   \<and> reporting (EmptySlicef [1 \<mapsto> MapObject []] (T []) None ''m'' []) = T [Helper]
   \<and> NotEmptySlicef [1 \<mapsto> MapObject []] (T []) None ''m'' []
       = NotEmptySlicef [1 \<mapsto> MapObject []] (T []) (Some (2, 0)) ''m'' []
   \<and> failures (reporting (NotEmptySlice [1 \<mapsto> MapObject []] (T []) None)) = 1"
  using nil_collections_count_as_empty [of "[1 \<mapsto> MapObject []]" "[]" 1 None "Some 1" "T []"
      "''m''" "[]" None "Some (2, 0)"]
  by (simp add: EmptyMapf_def NotEmptyMapf_def EmptySlicef_def NotEmptySlicef_def failures_def
        reporting_leaves)

section \<open>The spy\<close>

subsection \<open>The flag\<close>

lemma failed_TBSpy_method_keeps: "failed s \<Longrightarrow> failed (TBSpy_method s c)"
  by (cases s; cases c) simp_all

lemma failed_TBSpy_method_sets: "is_failure_report c \<Longrightarrow> failed (TBSpy_method s c)"
  by (cases s; cases c) simp_all

lemma failed_ExpectFailure: "failed (fst (ExpectFailure mem s)) = failed s"
  by (simp add: ExpectFailure_def Let_def)

lemma failed_ExpectSuccess: "failed (fst (ExpectSuccess mem s)) = failed s"
  by (simp add: ExpectSuccess_def Let_def)

lemma failed_spy_step: "failed (fst p) \<Longrightarrow> failed (fst (spy_step p op))"
  using failed_ExpectFailure [of "snd p" "fst p"] failed_ExpectSuccess [of "snd p" "fst p"]
  by (cases p; cases op) (auto simp: failed_TBSpy_method_keeps split: prod.splits)

lemma failed_spy_steps: "failed (fst p) \<Longrightarrow> failed (fst (foldl spy_step p ops))"
  by (induction ops arbitrary: p) (simp_all add: failed_spy_step)

lemma failed_TBSpy_methods_keep: "failed s \<Longrightarrow> failed (foldl TBSpy_method s cs)"
  by (induction cs arbitrary: s) (simp_all add: failed_TBSpy_method_keeps)

lemma failed_TBSpy_methods_set:
  "list_ex is_failure_report cs \<Longrightarrow> failed (foldl TBSpy_method s cs)"
proof (induction cs arbitrary: s)
  case Nil
  then show ?case by simp
next
  case (Cons c cs)
  show ?case
  proof (cases "is_failure_report c")
    case True
    then have "failed (TBSpy_method s c)" by (rule failed_TBSpy_method_sets)
    then show ?thesis by (simp add: failed_TBSpy_methods_keep)
  next
    case False
    with Cons.prems have "list_ex is_failure_report cs" by simp
    then show ?thesis by (simp add: Cons.IH)
  qed
qed

text \<open>
  C5. The flag of a spy is false when \<^verbatim>\<open>SpyOn\<close> has built it; each call of \<^verbatim>\<open>Fail\<close>,
  \<^verbatim>\<open>FailNow\<close>, \<^verbatim>\<open>Error\<close>, \<^verbatim>\<open>Errorf\<close>, \<^verbatim>\<open>Fatal\<close> or \<^verbatim>\<open>Fatalf\<close> leaves it true; and once it is true
  it stays true through every later sequence of operations on the spy, whether methods of
  \<^verbatim>\<open>testing.TB\<close> or the spy's own three.
\<close>

theorem spy_flag_is_monotone:
  "\<not> failed (SpyOn t)
   \<and> (is_failure_report c \<longrightarrow> failed (TBSpy_method s c))
   \<and> (failed s \<longrightarrow> failed (fst (foldl spy_step (s, mem) ops)))"
  using failed_spy_steps [of "(s, mem)" ops]
  by (simp add: SpyOn_def failed_TBSpy_method_sets)

theorem spy_flag_is_monotone_witness:
  "\<not> failed (SpyOn (T []))
   \<and> is_failure_report (Fatal []) \<and> failed (TBSpy_method (SpyOn (T [])) (Fatal []))
   \<and> failed (TBSpy (T []) True)
   \<and> failed (fst (foldl spy_step (TBSpy (T []) True, Map.empty)
        [Method Helper, Op_ExpectSuccess, Method (Logf ''x'' []), Op_SpiedOnAFailure,
         Op_ExpectFailure, Method (Promoted ''Cleanup'')]))"
  using spy_flag_is_monotone [of "T []" "Fatal []" "SpyOn (T [])" Map.empty "[]"]
    spy_flag_is_monotone [of "T []" "Fatal []" "TBSpy (T []) True" Map.empty
      "[Method Helper, Op_ExpectSuccess, Method (Logf ''x'' []), Op_SpiedOnAFailure,
        Op_ExpectFailure, Method (Promoted ''Cleanup'')]"]
  by simp

subsection \<open>What reaches the wrapped context\<close>

lemma failed_TBSpy_method_other:
  "\<not> is_failure_report c \<Longrightarrow> failed (TBSpy_method s c) = failed s"
  by (cases s; cases c) simp_all

lemma marked_failed_invoke:
  "\<not> is_failure_report c \<Longrightarrow> marked_failed (invoke w c) = marked_failed w"
  by (cases w) (simp_all add: failed_TBSpy_method_other)

lemma marked_failed_TB_method:
  "marked_failed (TB (TBSpy_method s c)) = marked_failed (TB s)"
  by (cases s; cases c) (simp_all add: marked_failed_invoke)

lemma marked_failed_TB_methods:
  "marked_failed (TB (foldl TBSpy_method s cs)) = marked_failed (TB s)"
  by (induction cs arbitrary: s) (simp_all add: marked_failed_TB_method)

lemma TBSpy_method_on_T:
  "\<exists>xs f'. TBSpy_method (TBSpy (T ws) f) c = TBSpy (T (ws @ xs)) f'
     \<and> filter is_failure_report xs = []"
  by (cases c) auto

lemma TBSpy_methods_on_T:
  "\<exists>xs f'. foldl TBSpy_method (TBSpy (T ws) f) cs = TBSpy (T (ws @ xs)) f'
     \<and> filter is_failure_report xs = []"
proof (induction cs arbitrary: ws f)
  case Nil
  show ?case by simp
next
  case (Cons c cs)
  obtain xs f' where step: "TBSpy_method (TBSpy (T ws) f) c = TBSpy (T (ws @ xs)) f'"
    and xs: "filter is_failure_report xs = []"
    using TBSpy_method_on_T by blast
  obtain ys f'' where rest: "foldl TBSpy_method (TBSpy (T (ws @ xs)) f') cs = TBSpy (T ((ws @ xs) @ ys)) f''"
    and ys: "filter is_failure_report ys = []"
    using Cons.IH by blast
  have "foldl TBSpy_method (TBSpy (T ws) f) (c # cs) = TBSpy (T (ws @ (xs @ ys))) f''"
    using step rest by simp
  moreover have "filter is_failure_report (xs @ ys) = []"
    using xs ys by simp
  ultimately show ?case by blast
qed

text \<open>
  C3. Whatever sequence of methods is called on a spy, the wrapped context is marked
  failed afterwards exactly if it was before, and a wrapped host context has received no
  further failure report. The six intercepted methods call only \<^verbatim>\<open>Helper\<close> on the wrapped
  context and, when they carry a message, \<^verbatim>\<open>Log\<close> or \<^verbatim>\<open>Logf\<close> with that message.
\<close>

text \<open>
  C3. Whatever sequence of methods is called on a spy, the wrapped context is marked
  failed afterwards exactly if it was before, and a wrapped host context has received no
  further failure report. The six intercepted methods call only \<^verbatim>\<open>Helper\<close> on the wrapped
  context and, when they carry a message, \<^verbatim>\<open>Log\<close> or \<^verbatim>\<open>Logf\<close> with that message.
\<close>

theorem spy_never_fails_the_wrapped_context:
  "marked_failed (TB (foldl TBSpy_method s cs)) = marked_failed (TB s)
   \<and> filter is_failure_report (calls (TB (foldl TBSpy_method (TBSpy (T ws) f) cs)))
       = filter is_failure_report ws
   \<and> TB (TBSpy_method s Fail) = invoke (TB s) Helper
   \<and> TB (TBSpy_method s FailNow) = invoke (TB s) Helper
   \<and> TB (TBSpy_method s (Error args)) = invoke (invoke (TB s) Helper) (Log args)
   \<and> TB (TBSpy_method s (Errorf format args)) = invoke (invoke (TB s) Helper) (Logf format args)
   \<and> TB (TBSpy_method s (Fatal args)) = invoke (invoke (TB s) Helper) (Log args)
   \<and> TB (TBSpy_method s (Fatalf format args)) = invoke (invoke (TB s) Helper) (Logf format args)"
proof -
  obtain xs f' where "foldl TBSpy_method (TBSpy (T ws) f) cs = TBSpy (T (ws @ xs)) f'"
    and "filter is_failure_report xs = []"
    using TBSpy_methods_on_T by blast
  then have "filter is_failure_report (calls (TB (foldl TBSpy_method (TBSpy (T ws) f) cs)))
       = filter is_failure_report ws"
    by simp
  moreover have "TB (TBSpy_method s c) = (case c of
        Fail \<Rightarrow> invoke (TB s) Helper | FailNow \<Rightarrow> invoke (TB s) Helper
      | Error a \<Rightarrow> invoke (invoke (TB s) Helper) (Log a)
      | Errorf fm a \<Rightarrow> invoke (invoke (TB s) Helper) (Logf fm a)
      | Fatal a \<Rightarrow> invoke (invoke (TB s) Helper) (Log a)
      | Fatalf fm a \<Rightarrow> invoke (invoke (TB s) Helper) (Logf fm a)
      | _ \<Rightarrow> invoke (TB s) c)" for c
    by (cases s; cases c) simp_all
  ultimately show ?thesis
    by (simp add: marked_failed_TB_methods)
qed

theorem spy_never_fails_the_wrapped_context_witness:
  "\<not> marked_failed (TB (foldl TBSpy_method (SpyOn (T [Helper]))
        [Fail, FailNow, Error [], Errorf ''e'' [], Fatal [], Fatalf ''f'' []]))
   \<and> calls (TB (foldl TBSpy_method (SpyOn (T [Helper]))
        [Fail, FailNow, Error [], Errorf ''e'' [], Fatal [], Fatalf ''f'' []]))
       = [Helper, Helper, Helper, Helper, Log [], Helper, Logf ''e'' [], Helper, Log [],
          Helper, Logf ''f'' []]"
  using spy_never_fails_the_wrapped_context [of "SpyOn (T [Helper])"
      "[Fail, FailNow, Error [], Errorf ''e'' [], Fatal [], Fatalf ''f'' []]"]
  by (simp add: SpyOn_def)

subsection \<open>Expecting a failure, expecting success\<close>

lemma Expect_on_failed:
  "failed s \<Longrightarrow>
     TB (fst (ExpectFailure mem s)) = foldl invoke (TB s) [Helper, Helper, Helper]
     \<and> TB (fst (ExpectSuccess mem s)) = foldl invoke (TB s)
          [Helper, Helper, Helper, Errorf ''[spy] Expected test success but got failure'' []]"
  by (simp add: ExpectFailure_def ExpectSuccess_def Truef_def Falsef_def Equalf_def
        reporting_leaves Let_def)

lemma Expect_on_not_failed:
  "\<not> failed s \<Longrightarrow>
     TB (fst (ExpectFailure mem s)) = foldl invoke (TB s)
          [Helper, Helper, Helper, Errorf ''[spy] Expected test failure but got success'' []]
     \<and> TB (fst (ExpectSuccess mem s)) = foldl invoke (TB s) [Helper, Helper, Helper]"
  by (simp add: ExpectFailure_def ExpectSuccess_def Truef_def Falsef_def Equalf_def
        reporting_leaves Let_def)

lemma Expect_returns:
  "snd (ExpectFailure mem s) = leaves mem (TB (fst (ExpectFailure mem s))) (Return ())
   \<and> snd (ExpectSuccess mem s) = leaves mem (TB (fst (ExpectSuccess mem s))) (Return ())"
  by (simp add: ExpectFailure_def ExpectSuccess_def Truef_def Falsef_def Equalf_def
        reporting_leaves Let_def)

text \<open>
  C4. After a sequence of method calls on a spy with at least one failure report among
  them, \<^verbatim>\<open>SpiedOnAFailure\<close> is true, \<^verbatim>\<open>ExpectFailure\<close> calls only \<^verbatim>\<open>Helper\<close> on the wrapped
  context, and \<^verbatim>\<open>ExpectSuccess\<close> calls \<^verbatim>\<open>Errorf\<close> on it once. On a fresh spy
  \<^verbatim>\<open>SpiedOnAFailure\<close> is false, \<^verbatim>\<open>ExpectFailure\<close> calls \<^verbatim>\<open>Errorf\<close> on the wrapped context once
  and \<^verbatim>\<open>ExpectSuccess\<close> calls only \<^verbatim>\<open>Helper\<close>. For a wrapped host context the counts of
  failure reports are given as well. Both methods return.
\<close>

theorem spy_round_trip:
  "(list_ex is_failure_report cs \<longrightarrow>
      SpiedOnAFailure (foldl TBSpy_method s cs)
      \<and> TB (fst (ExpectFailure mem (foldl TBSpy_method s cs)))
          = foldl invoke (TB (foldl TBSpy_method s cs)) [Helper, Helper, Helper]
      \<and> TB (fst (ExpectSuccess mem (foldl TBSpy_method s cs)))
          = foldl invoke (TB (foldl TBSpy_method s cs))
              [Helper, Helper, Helper, Errorf ''[spy] Expected test success but got failure'' []]
      \<and> failures (TB (fst (ExpectFailure mem (foldl TBSpy_method (SpyOn (T ws)) cs))))
          = failures (T ws)
      \<and> failures (TB (fst (ExpectSuccess mem (foldl TBSpy_method (SpyOn (T ws)) cs))))
          = Suc (failures (T ws)))
   \<and> \<not> SpiedOnAFailure (SpyOn t)
   \<and> TB (fst (ExpectFailure mem (SpyOn t)))
       = foldl invoke t
           [Helper, Helper, Helper, Errorf ''[spy] Expected test failure but got success'' []]
   \<and> TB (fst (ExpectSuccess mem (SpyOn t))) = foldl invoke t [Helper, Helper, Helper]
   \<and> failures (TB (fst (ExpectFailure mem (SpyOn (T ws))))) = Suc (failures (T ws))
   \<and> failures (TB (fst (ExpectSuccess mem (SpyOn (T ws))))) = failures (T ws)
   \<and> ending (snd (ExpectFailure mem s)) = Return ()
   \<and> ending (snd (ExpectSuccess mem s)) = Return ()"
proof -
  have fresh: "\<not> failed (SpyOn t)" for t
    by (simp add: SpyOn_def)
  have after: "failed (foldl TBSpy_method s cs)" if "list_ex is_failure_report cs" for s
    using that by (rule failed_TBSpy_methods_set)
  obtain xs f' where run: "foldl TBSpy_method (SpyOn (T ws)) cs = TBSpy (T (ws @ xs)) f'"
    and xs: "filter is_failure_report xs = []"
    unfolding SpyOn_def using TBSpy_methods_on_T by blast
  have counted: "failures (TB (fst (ExpectFailure mem (foldl TBSpy_method (SpyOn (T ws)) cs))))
        = failures (T ws)
      \<and> failures (TB (fst (ExpectSuccess mem (foldl TBSpy_method (SpyOn (T ws)) cs))))
        = Suc (failures (T ws))"
    if "list_ex is_failure_report cs"
    using Expect_on_failed [OF after [OF that, of "SpyOn (T ws)"], of mem] xs
    by (simp add: run failures_def)
  have fresh_counted: "failures (TB (fst (ExpectFailure mem (SpyOn (T ws))))) = Suc (failures (T ws))
      \<and> failures (TB (fst (ExpectSuccess mem (SpyOn (T ws))))) = failures (T ws)"
    using Expect_on_not_failed [OF fresh [of "T ws"], of mem]
    by (simp add: SpyOn_def failures_def)
  have returns: "ending (snd (ExpectFailure mem s)) = Return ()
      \<and> ending (snd (ExpectSuccess mem s)) = Return ()"
    using Expect_returns [of mem s] by (simp add: ending_leaves)
  show ?thesis
    using Expect_on_failed [OF after [of s], of mem] Expect_on_not_failed [OF fresh [of t], of mem]
      counted fresh_counted after [of s] returns
    by (simp add: SpiedOnAFailure_def SpyOn_def)
qed

theorem spy_round_trip_witness:
  "list_ex is_failure_report [Helper, Errorf ''test failed'' []]
   \<and> SpiedOnAFailure (foldl TBSpy_method (SpyOn (T [])) [Helper, Errorf ''test failed'' []])
   \<and> calls (TB (fst (ExpectFailure Map.empty
        (foldl TBSpy_method (SpyOn (T [])) [Helper, Errorf ''test failed'' []]))))
       = [Helper, Helper, Logf ''test failed'' [], Helper, Helper, Helper]
   \<and> failures (TB (fst (ExpectSuccess Map.empty
        (foldl TBSpy_method (SpyOn (T [])) [Helper, Errorf ''test failed'' []]))))
       = 1"
  using spy_round_trip [of "[Helper, Errorf ''test failed'' []]" "SpyOn (T [])" Map.empty "[]" "T []"]
  by (simp add: SpyOn_def failures_def)

section \<open>Errors\<close>

text \<open>
  The function that walks the chain decides the relation of the specification.
\<close>

lemma is_causes_member: "c \<in> set es \<Longrightarrow> is_chain c t \<Longrightarrow> is_causes es t"
  by (induction es) auto

lemma is_chain_refl: "is_chain e e"
  by (cases e) simp

lemma is_chain_accepts: "ident t \<in> set (accepts e) \<Longrightarrow> is_chain e t"
  by (cases e) simp

lemma is_chain_wraps: "c \<in> set (wraps e) \<Longrightarrow> is_chain c t \<Longrightarrow> is_chain e t"
  by (cases e) (simp add: is_causes_member)

lemma is_chain_matches:
  "is_chain e t \<Longrightarrow> matches (Some e) (Some t)"
  "is_causes es t \<Longrightarrow> \<exists>c\<in>set es. matches (Some c) (Some t)"
proof (induction e t and es t rule: is_chain_is_causes.induct)
  case (1 i m acc ws target)
  from "1.prems" consider "Err i m acc ws = target" | "ident target \<in> set acc"
    | "is_causes ws target" by auto
  then show ?case
  proof cases
    case 1
    then show ?thesis by (simp add: matches.is_target)
  next
    case 2
    then show ?thesis by (simp add: matches.is_equivalent)
  next
    case 3
    then obtain c where "c \<in> set ws" and "matches (Some c) (Some target)"
      using "1.IH" by blast
    then show ?thesis
      using matches.unwraps_to [of c "Err i m acc ws" "Some target"] by simp
  qed
next
  case (2 target)
  then show ?case by simp
next
  case (3 e es target)
  then show ?case by auto
qed

lemma matches_errors_Is: "matches err target \<Longrightarrow> errors_Is err target"
proof (induction rule: matches.induct)
  case (is_target e)
  then show ?case by (cases e) (simp_all add: is_chain_refl)
next
  case (is_equivalent target e)
  then show ?case by (simp add: is_chain_accepts)
next
  case (unwraps_to cause e target)
  then show ?case
    by (cases target) (auto intro: is_chain_wraps)
qed

lemma errors_Is_matches: "errors_Is err target = matches err target"
proof
  assume "errors_Is err target"
  then show "matches err target"
    by (cases err; cases target) (auto intro: is_chain_matches matches.is_target)
next
  assume "matches err target"
  then show "errors_Is err target" by (rule matches_errors_Is)
qed

text \<open>
  C8. \<^verbatim>\<open>ErrorIs\<close> reports no failure exactly when the error matches the target: it is the
  target, or its \<^verbatim>\<open>Is\<close> predicate accepts the target, or a cause it unwraps to matches.
  \<^verbatim>\<open>ErrorIsNot\<close> reports no failure exactly when it does not match. In particular
  \<^verbatim>\<open>ErrorIs\<close> passes for an error that wraps the target, fails for an unrelated error (another
  value, with no \<^verbatim>\<open>Is\<close> and no cause), and for a nil error and a target that is not nil it
  reports one failure, while \<^verbatim>\<open>ErrorIsNot\<close> reports none; with a nil error both return.
\<close>

theorem ErrorIs_follows_the_chain:
  "(failures (reporting (ErrorIs mem (T cs) err target)) = failures (T cs)
      \<longleftrightarrow> matches err target)
   \<and> (failures (reporting (ErrorIsf mem (T cs) err target format args)) = failures (T cs)
        \<longleftrightarrow> matches err target)
   \<and> (failures (reporting (ErrorIsNot mem (T cs) err target)) = failures (T cs)
        \<longleftrightarrow> \<not> matches err target)
   \<and> (failures (reporting (ErrorIsNotf mem (T cs) err target format args)) = failures (T cs)
        \<longleftrightarrow> \<not> matches err target)
   \<and> failures (reporting (ErrorIs mem (T cs) (Some (Err i m acc [e])) (Some e)))
       = failures (T cs)
   \<and> (e' \<noteq> e \<and> accepts e' = [] \<and> wraps e' = [] \<longrightarrow>
        failures (reporting (ErrorIs mem (T cs) (Some e') (Some e))) = Suc (failures (T cs)))
   \<and> failures (reporting (ErrorIs mem (T cs) None (Some e))) = Suc (failures (T cs))
   \<and> failures (reporting (ErrorIsNot mem (T cs) None (Some e))) = failures (T cs)
   \<and> ending (ErrorIs mem t None target) = Return ()
   \<and> ending (ErrorIsNot mem t None target) = Return ()"
proof -
  have unrelated: "\<not> errors_Is (Some e') (Some e)" if "e' \<noteq> e" "accepts e' = []" "wraps e' = []"
    using that by (cases e') simp
  have wrapped: "errors_Is (Some (Err i m acc [e])) (Some e)"
    by (simp add: is_chain_refl)
  show ?thesis
    using unrelated wrapped
    by (simp add: ErrorIs_def ErrorIsf_def ErrorIsNot_def ErrorIsNotf_def failures_T Let_def
          reporting_leaves ending_leaves errors_Is_matches [symmetric])
qed

theorem ErrorIs_follows_the_chain_witness:
  "Err 2 ''test error'' [] [] \<noteq> Err 1 ''test error'' [] []
   \<and> accepts (Err 2 ''test error'' [] []) = [] \<and> wraps (Err 2 ''test error'' [] []) = []
   \<and> failures (reporting (ErrorIs Map.empty (T []) (Some (Err 2 ''test error'' [] []))
        (Some (Err 1 ''test error'' [] [])))) = 1
   \<and> failures (reporting (ErrorIs Map.empty (T [])
        (Some (Err 3 ''foo: test error'' [] [Err 1 ''test error'' [] []]))
        (Some (Err 1 ''test error'' [] [])))) = 0"
  using ErrorIs_follows_the_chain [of Map.empty "[]" None None "[]" "[]" 3 "''foo: test error''"
      "[]" "Err 1 ''test error'' [] []" "Err 2 ''test error'' [] []" "T []"]
  by (simp add: failures_T)


section \<open>Equality\<close>









section \<open>Nil\<close>

lemma to_any_None: "to_any ty v = None \<longleftrightarrow> v = VInterface None"
  by (cases v) auto

text \<open>
  C2. \<^verbatim>\<open>Nil\<close> and \<^verbatim>\<open>NotNil\<close> compare their argument, converted to \<^verbatim>\<open>any\<close>, with nil. A nil
  pointer is the nil value of its type, yet converted to \<^verbatim>\<open>any\<close> it is an interface that
  holds a pointer and is not nil: \<^verbatim>\<open>Nil\<close> reports a failure for it and \<^verbatim>\<open>NotNil\<close> reports
  none. \<^verbatim>\<open>Nil\<close> passes exactly when the converted argument is the nil interface, which of
  all values only the nil interface is.
\<close>

theorem Nil_of_nil_pointer:
  "is_nil (VPointer None)
   \<and> calls (reporting (Nil_assert mem (T []) (to_any ty (VPointer None))))
       = [Helper, Helper,
          Errorf ''expected %v to be nil'' [Value (VInterface (Some (ty, VPointer None)))]]
   \<and> calls (reporting (NotNil mem (T []) (to_any ty (VPointer None)))) = [Helper, Helper]
   \<and> calls (reporting (Nil_assert mem (T []) (to_any ty (VInterface None)))) = [Helper, Helper]
   \<and> (failures (reporting (Nil_assert mem (T cs) (to_any ty v))) = failures (T cs)
        \<longleftrightarrow> to_any ty v = None)
   \<and> (failures (reporting (NotNil mem (T cs) (to_any ty v))) = failures (T cs)
        \<longleftrightarrow> to_any ty v \<noteq> None)
   \<and> (to_any ty v = None \<longleftrightarrow> v = VInterface None)"
  using to_any_None [of ty v]
  by (simp add: Nil_assert_def Nilf_def NotNil_def NotNilf_def failures_T Let_def
        reporting_leaves)

section \<open>Panics\<close>

text \<open>
  C1, as amended. \<^verbatim>\<open>Panicsf\<close> and \<^verbatim>\<open>Panics\<close> report no failure exactly when the procedure
  panics, and then return the value of the panic. For every procedure that finishes by
  returning or by panicking, the call returns to its caller with the recovered value
  (nil when there was no panic): the panic goes no further.
\<close>

theorem Panics_recovers:
  "(failures (reporting (Panicsf mem (T cs) f format args)) = failures (T cs)
      \<longleftrightarrow> (\<exists>v. f = PanicsWith v))
   \<and> (failures (reporting (Panics mem (T cs) f)) = failures (T cs) \<longleftrightarrow> (\<exists>v. f = PanicsWith v))
   \<and> ending (Panicsf mem t (PanicsWith v) format args) = Return (Some v)
   \<and> ending (Panics mem t (PanicsWith v)) = Return (Some v)
   \<and> (f \<noteq> CallsGoexit \<longrightarrow>
        ending (Panicsf mem t f format args) = Return (recover f)
        \<and> ending (Panics mem t f) = Return (recover f))"
  by (cases f)
     (simp_all add: Panics_def Panicsf_def failures_T reporting_leaves ending_leaves Let_def)

theorem Panics_recovers_witness:
  "Returns \<noteq> CallsGoexit
   \<and> Panicsf Map.empty (T []) Returns ''m'' []
       = leaves Map.empty (T [Helper, Errorf ''m'' []]) (Return None)
   \<and> PanicsWith (''string'', VString ''test'') \<noteq> CallsGoexit
   \<and> Panics Map.empty (T []) (PanicsWith (''string'', VString ''test''))
       = leaves Map.empty (T [Helper, Helper]) (Return (Some (''string'', VString ''test'')))"
  using Panics_recovers [of Map.empty "[]" Returns "''m''" "[]" "T []" "(''string'', VString ''test'')"]
    Panics_recovers [of Map.empty "[]" "PanicsWith (''string'', VString ''test'')" "''m''" "[]" "T []"
      "(''string'', VString ''test'')"]
  by (simp add: Panics_def Panicsf_def)

text \<open>
  C1 as stated fails for a procedure that ends the goroutine, such as
  \<^verbatim>\<open>func() { t.FailNow() }\<close> with a \<^verbatim>\<open>testing.T\<close>: the deferred function runs, \<^verbatim>\<open>recover()\<close> is
  nil, the failure is reported, and the goroutine goes on exiting, so \<^verbatim>\<open>Panics\<close> does not
  return to its caller.
\<close>

theorem Panics_Goexit_counterexample:
  "Panics Map.empty (T []) CallsGoexit
     = leaves Map.empty
         (T [Helper, Helper, Errorf ''expected function to panic, did not panic'' []]) NoReturn"
  by (simp add: Panics_def Panicsf_def)


section \<open>What every check does\<close>

lemmas formatted_defs =
  Equalf_def NotEqualf_def Truef_def Falsef_def Nilf_def NotNilf_def StringContainsf_def
  StringDoesNotContainf_def Panicsf_def DoesNotPanicf_def ErrorIsf_def ErrorIsNotf_def
  MapContainsKeyf_def MapDoesNotContainKeyf_def EmptyMapf_def NotEmptyMapf_def EmptySlicef_def
  NotEmptySlicef_def DeepEqualf_def NotDeepEqualf_def

lemmas default_defs =
  Equal_def NotEqual_def True_assert_def False_assert_def Nil_assert_def NotNil_def
  StringContains_def StringDoesNotContain_def Panics_def DoesNotPanic_def ErrorIs_def
  ErrorIsNot_def MapContainsKey_def MapDoesNotContainKey_def EmptyMap_def NotEmptyMap_def
  EmptySlice_def NotEmptySlice_def DeepEqual_def NotDeepEqual_def

lemma reporting_with_results: "reporting (with_results f r) = reporting r"
  by (simp add: with_results_def)


lemma ending_with_results: "ending (with_results f r) = map_return f (ending r)"
  by (simp add: with_results_def)


lemma failures_foldl_invoke:
  "failures (foldl invoke (T cs) (replicate n Helper @ xs))
     = failures (T cs) + length (filter is_failure_report xs)"
  by (simp add: calls_foldl_invoke failures_T)




lemma run_formatted_zero_or_one:
  "reporting (run_formatted deep mem c t format args)
     = foldl invoke t
         (replicate (case c of C_True a \<Rightarrow> 2 | C_False a \<Rightarrow> 2 | _ \<Rightarrow> 1) Helper)
   \<or> reporting (run_formatted deep mem c t format args)
     = foldl invoke t
         (replicate (case c of C_True a \<Rightarrow> 2 | C_False a \<Rightarrow> 2 | _ \<Rightarrow> 1) Helper
          @ [Errorf format args])"
proof (cases c)
  case (C_Panics f)
  then show ?thesis
    by (cases f) (simp_all add: Panicsf_def reporting_with_results reporting_leaves)
next
  case (C_DoesNotPanic f)
  then show ?thesis
    by (cases f) (simp_all add: DoesNotPanicf_def reporting_with_results reporting_leaves)
qed (auto simp: Let_def formatted_defs reporting_with_results reporting_leaves numeral_2_eq_2
      map_index_ok_def split: option.splits)

lemma run_formatted_at_most_one:
  "\<exists>xs. reporting (run_formatted deep mem c t format args)
     = foldl invoke t
         (replicate (case c of C_True a \<Rightarrow> 2 | C_False a \<Rightarrow> 2 | _ \<Rightarrow> 1) Helper @ xs)
     \<and> (xs = [] \<or> xs = [Errorf format args])"
  using run_formatted_zero_or_one [of deep mem c t format args]
  by (metis append_Nil2)



lemma run_formatted_ending_same:
  "ending (run_formatted deep mem c t format args)
     = ending (run_formatted deep mem c t' format' args')"
  by (cases c)
     (auto simp: Let_def formatted_defs ending_with_results ending_leaves split: option.splits)

lemma run_formatted_failures_same:
  "failures (reporting (run_formatted deep mem c (T cs) format args)) - failures (T cs)
     = failures (reporting (run_formatted deep mem c (T cs') format' args')) - failures (T cs')"
proof (cases c)
  case (C_Panics f)
  then show ?thesis
    by (cases f) (simp_all add: Panicsf_def reporting_with_results reporting_leaves failures_T)
next
  case (C_DoesNotPanic f)
  then show ?thesis
    by (cases f)
       (simp_all add: DoesNotPanicf_def reporting_with_results reporting_leaves failures_T)
qed (auto simp: Let_def formatted_defs reporting_with_results reporting_leaves failures_T
      split: option.splits)

lemma run_formatted_failures_grow:
  "failures (T cs) \<le> failures (reporting (run_formatted deep mem c (T cs) format args))"
proof -
  obtain xs where "reporting (run_formatted deep mem c (T cs) format args)
     = foldl invoke (T cs)
         (replicate (case c of C_True a \<Rightarrow> 2 | C_False a \<Rightarrow> 2 | _ \<Rightarrow> 1) Helper @ xs)"
    using run_formatted_at_most_one by blast
  then have "failures (reporting (run_formatted deep mem c (T cs) format args))
      = failures (T cs) + length (filter is_failure_report xs)"
    by (simp only: failures_foldl_invoke)
  then show ?thesis by simp
qed

lemma run_default_delegates:
  "\<exists>format' args'. \<forall>mem t.
     run_default deep mem c t = run_formatted deep mem c (invoke t Helper) format' args'"
  by (cases c) (auto simp: default_defs)





lemma run_default_ending:
  "ending (run_default deep mem c t) = ending (run_formatted deep mem c t format args)"
proof -
  obtain format' args' where
    "run_default deep mem c t = run_formatted deep mem c (invoke t Helper) format' args'"
    using run_default_delegates by blast
  then show ?thesis
    using run_formatted_ending_same [of deep mem c "invoke t Helper" format' args' t format args]
    by simp
qed

lemma run_default_failures:
  "failures (reporting (run_default deep mem c (T cs)))
     = failures (reporting (run_formatted deep mem c (T cs) format args))"
proof -
  obtain format' args' where
    "run_default deep mem c (T cs) = run_formatted deep mem c (invoke (T cs) Helper) format' args'"
    using run_default_delegates by blast
  then have d: "reporting (run_default deep mem c (T cs))
      = reporting (run_formatted deep mem c (T (cs @ [Helper])) format' args')"
    by simp
  have "failures (reporting (run_formatted deep mem c (T (cs @ [Helper])) format' args'))
          - failures (T (cs @ [Helper]))
        = failures (reporting (run_formatted deep mem c (T cs) format args)) - failures (T cs)"
    by (rule run_formatted_failures_same)
  moreover have "failures (T (cs @ [Helper])) = failures (T cs)"
    by (simp add: failures_T)
  moreover have "failures (T (cs @ [Helper]))
      \<le> failures (reporting (run_formatted deep mem c (T (cs @ [Helper])) format' args'))"
    by (rule run_formatted_failures_grow)
  moreover have "failures (T cs)
      \<le> failures (reporting (run_formatted deep mem c (T cs) format args))"
    by (rule run_formatted_failures_grow)
  ultimately show ?thesis
    using d by simp
qed




section \<open>The two forms of a check\<close>

text \<open>
  C7. The default form of every check calls \<^verbatim>\<open>Helper\<close> and then its formatted form with a
  message that depends neither on the context nor on the memory. On a host context both
  forms report the same number of failures for the same checked values, whatever message
  the formatted form is given, and both end the same way with the same results.
\<close>

theorem default_variant_delegates:
  "(\<exists>format' args'. \<forall>mem t.
       run_default deep mem c t = run_formatted deep mem c (invoke t Helper) format' args')
   \<and> failures (reporting (run_default deep mem c (T cs)))
       = failures (reporting (run_formatted deep mem c (T cs) format args))
   \<and> ending (run_default deep mem c t) = ending (run_formatted deep mem c t format args)"
  using run_default_delegates [of deep c] run_default_ending [of deep mem c t format args]
    run_default_failures [of deep mem c cs format args]
  by simp

theorem default_variant_delegates_witness:
  "failures (reporting (run_default (\<lambda>h a b. a = b) Map.empty (C_Equal (VInt 1) (VInt 2)) (T [])))
     = failures (reporting
         (run_formatted (\<lambda>h a b. a = b) Map.empty (C_Equal (VInt 1) (VInt 2)) (T []) ''custom'' []))
   \<and> failures (reporting
         (run_formatted (\<lambda>h a b. a = b) Map.empty (C_Equal (VInt 1) (VInt 2)) (T []) ''custom'' []))
       = 1
   \<and> ending (run_default (\<lambda>h a b. a = b) Map.empty
        (C_Panics (PanicsWith (''string'', VString ''test''))) (T []))
     = Return [Some (''string'', VString ''test'')]"
  using default_variant_delegates [of "\<lambda>h a b. a = b" "C_Equal (VInt 1) (VInt 2)" Map.empty "[]"
      "''custom''" "[]" "T []"]
    default_variant_delegates [of "\<lambda>h a b. a = b"
      "C_Panics (PanicsWith (''string'', VString ''test''))" Map.empty "[]" "''custom''" "[]" "T []"]
  by (simp add: failures_T Equalf_def Panicsf_def with_results_def leaves_def)

end
